theory Spec2Isabelle
  imports Main
begin

section \<open>JavaScript values used by the two stores\<close>

text \<open>
  Counters are JavaScript numbers, that is, IEEE doubles. They are modelled as integers
  together with \<open>NaN\<close>, which is what arithmetic on \<open>undefined\<close> produces. Adding or
  subtracting one is exact on doubles as long as the operand and the result lie between
  \<open>-2^53\<close> and \<open>2^53\<close>; beyond that the engine rounds (\<open>2^53 + 1\<close> is \<open>2^53\<close>) and
  the integer model does not. Every statement below about arbitrary counts therefore carries
  that bound as a hypothesis, and every evaluation is at small counts.
\<close>

datatype jsnum = Num int | NaN

text \<open>
  A plain object is an association list in insertion order. Reading a missing key gives
  \<open>undefined\<close> (\<open>None\<close>); writing an existing key keeps its position, writing a new
  key appends it, as an object literal with a spread does. This is the engine's enumeration
  order for keys that are not array indices; a key such as \<open>2\<close> would be enumerated before
  the others, so for such keys the list gives the contents of the object and not the order
  of its keys. Reads and writes do not depend on the order.
\<close>

type_synonym 'v obj = "(string \<times> 'v) list"

fun obj_get :: "'v obj \<Rightarrow> string \<Rightarrow> 'v option" where
  "obj_get [] k = None"
| "obj_get ((k', v) # ps) k = (if k' = k then Some v else obj_get ps k)"

fun obj_set :: "string \<Rightarrow> 'v \<Rightarrow> 'v obj \<Rightarrow> 'v obj" where
  "obj_set k v [] = [(k, v)]"
| "obj_set k v ((k', v') # ps) = (if k' = k then (k, v) # ps else (k', v') # obj_set k v ps)"

text \<open>\<open>{...a, ...b}\<close>: the keys of \<open>b\<close> are written over \<open>a\<close> one after the other.\<close>

fun obj_spread :: "'v obj \<Rightarrow> 'v obj \<Rightarrow> 'v obj" where
  "obj_spread a [] = a"
| "obj_spread a ((k, v) # ps) = obj_spread (obj_set k v a) ps"

fun obj_keys :: "'v obj \<Rightarrow> string list" where
  "obj_keys ps = map fst ps"

text \<open>\<open>x + n\<close> and \<open>x - n\<close> where \<open>x\<close> was read from an object.\<close>

fun js_plus :: "jsnum option \<Rightarrow> int \<Rightarrow> jsnum" where
  "js_plus (Some (Num a)) n = Num (a + n)"
| "js_plus (Some NaN) n = NaN"
| "js_plus None n = NaN"

fun js_minus :: "jsnum option \<Rightarrow> int \<Rightarrow> jsnum" where
  "js_minus (Some (Num a)) n = Num (a - n)"
| "js_minus (Some NaN) n = NaN"
| "js_minus None n = NaN"

text \<open>\<open>Math.max(0, x)\<close>; \<open>NaN\<close> is contagious.\<close>

fun math_max0 :: "jsnum \<Rightarrow> jsnum" where
  "math_max0 (Num a) = Num (max 0 a)"
| "math_max0 NaN = NaN"

text \<open>\<open>x || d\<close> on a string that may be \<open>undefined\<close>: the empty string is falsy too.\<close>

fun or_else :: "string option \<Rightarrow> string \<Rightarrow> string" where
  "or_else None d = d"
| "or_else (Some s) d = (if s = [] then d else s)"

fun truthy :: "string option \<Rightarrow> bool" where
  "truthy None = False"
| "truthy (Some s) = (s \<noteq> [])"

text \<open>
  An identifier is a number or a string; \<open>===\<close> never identifies the two, and neither does
  equality of this datatype.
\<close>

datatype ident = NumId int | StrId string

section \<open>The remote resource client\<close>

text \<open>
  The outcome of one HTTP request: the body of a successful response, or a failure that
  carries \<open>error.response?.data\<close> when the server answered with a (truthy) body. The
  stores read at most the fields \<open>message\<close> and \<open>response\<close> of a failure body.
\<close>

record err_obj =
  e_message :: "string option"
  e_response :: "string option"

datatype 'a http = Ok200 'a | Failed "err_obj option"

text \<open>
  Every service function has the shape
  \<^verbatim>\<open>try { return (await request).data } catch (error) { throw error.response?.data || dflt }\<close>.
\<close>

fun unwrap :: "err_obj \<Rightarrow> 'a http \<Rightarrow> err_obj + 'a" where
  "unwrap dflt (Ok200 d) = Inr d"
| "unwrap dflt (Failed (Some e)) = Inl e"
| "unwrap dflt (Failed None) = Inl dflt"

definition only_message :: "string \<Rightarrow> err_obj" where
  "only_message m = \<lparr>e_message = Some m, e_response = None\<rparr>"

section \<open>Domain store (ComplaintContext)\<close>

record complaint =
  c_id :: ident
  c_title :: string
  c_category :: string
  c_priority :: string
  c_status :: string
  c_description :: string
  c_location :: string
  c_submittedAt :: string
  c_updatedAt :: string

record complaint_state =
  complaints :: "complaint list"
  currentComplaint :: "complaint option"
  stats :: "jsnum obj"
  filters :: "string obj"
  isLoading :: bool
  error :: "string option"
  pagination :: "jsnum obj"

definition initialState :: complaint_state where
  "initialState =
     \<lparr>complaints = [],
      currentComplaint = None,
      stats = [(''total'', Num 0), (''pending'', Num 0), (''resolved'', Num 0),
               (''rejected'', Num 0)],
      filters = [(''status'', ''''), (''category'', ''''), (''priority'', ''''),
                 (''searchTerm'', '''')],
      isLoading = False,
      error = None,
      pagination = [(''page'', Num 1), (''limit'', Num 10), (''total'', Num 0),
                    (''totalPages'', Num 0)]\<rparr>"

datatype complaint_action =
    SET_LOADING bool
  | SET_COMPLAINTS "complaint list"
  | SET_CURRENT_COMPLAINT "complaint option"
  | ADD_COMPLAINT complaint
  | UPDATE_COMPLAINT complaint
  | DELETE_COMPLAINT ident
  | SET_STATS "jsnum obj"
  | SET_FILTERS "string obj"
  | SET_ERROR "string option"
  | CLEAR_ERROR
  | SET_PAGINATION "jsnum obj"
  | RESET_STATE
  | OTHER_ACTION string

text \<open>\<open>state.currentComplaint?.id === i\<close>: \<open>undefined\<close> is never equal to an identifier.\<close>

fun current_has_id :: "complaint option \<Rightarrow> ident \<Rightarrow> bool" where
  "current_has_id None i = False"
| "current_has_id (Some c) i = (c_id c = i)"

text \<open>
  \<open>[deletedComplaint?.status]\<close>: a computed key is converted to a string, so the key of an
  absent record is the string \<open>undefined\<close>.
\<close>

fun status_key :: "complaint option \<Rightarrow> string" where
  "status_key None = ''undefined''"
| "status_key (Some c) = c_status c"

fun complaintReducer :: "complaint_state \<Rightarrow> complaint_action \<Rightarrow> complaint_state" where
  "complaintReducer state (SET_LOADING b) = state\<lparr>isLoading := b\<rparr>"
| "complaintReducer state (SET_COMPLAINTS cs) =
     state\<lparr>complaints := cs, isLoading := False, error := None\<rparr>"
| "complaintReducer state (SET_CURRENT_COMPLAINT c) =
     state\<lparr>currentComplaint := c, isLoading := False, error := None\<rparr>"
| "complaintReducer state (ADD_COMPLAINT c) =
     state\<lparr>complaints := c # complaints state,
           stats := obj_set ''pending'' (js_plus (obj_get (stats state) ''pending'') 1)
                      (obj_set ''total'' (js_plus (obj_get (stats state) ''total'') 1)
                         (stats state))\<rparr>"
| "complaintReducer state (UPDATE_COMPLAINT p) =
     state\<lparr>complaints := map (\<lambda>c. if c_id c = c_id p then p else c) (complaints state),
           currentComplaint :=
             (if current_has_id (currentComplaint state) (c_id p) then Some p
              else currentComplaint state)\<rparr>"
| "complaintReducer state (DELETE_COMPLAINT i) =
     (let deletedComplaint = find (\<lambda>c. c_id c = i) (complaints state);
          key = status_key deletedComplaint
      in state\<lparr>complaints := filter (\<lambda>c. c_id c \<noteq> i) (complaints state),
               currentComplaint :=
                 (if current_has_id (currentComplaint state) i then None
                  else currentComplaint state),
               stats := obj_set key (math_max0 (js_minus (obj_get (stats state) key) 1))
                          (obj_set ''total'' (js_minus (obj_get (stats state) ''total'') 1)
                             (stats state))\<rparr>)"
| "complaintReducer state (SET_STATS st) = state\<lparr>stats := st\<rparr>"
| "complaintReducer state (SET_FILTERS f) = state\<lparr>filters := obj_spread (filters state) f\<rparr>"
| "complaintReducer state (SET_ERROR e) = state\<lparr>error := e, isLoading := False\<rparr>"
| "complaintReducer state CLEAR_ERROR = state\<lparr>error := None\<rparr>"
| "complaintReducer state (SET_PAGINATION p) =
     state\<lparr>pagination := obj_spread (pagination state) p\<rparr>"
| "complaintReducer state RESET_STATE = initialState"
| "complaintReducer state (OTHER_ACTION t) = state"

text \<open>A run of dispatches, applied in order.\<close>

fun dispatch_all :: "complaint_state \<Rightarrow> complaint_action list \<Rightarrow> complaint_state" where
  "dispatch_all state [] = state"
| "dispatch_all state (a # as) = dispatch_all (complaintReducer state a) as"

subsection \<open>complaintService\<close>

text \<open>The body of a list response: \<open>{complaints?, pagination?}\<close>.\<close>

record list_reply =
  l_complaints :: "complaint list option"
  l_pagination :: "jsnum obj option"

definition complaintService_getComplaints :: "list_reply http \<Rightarrow> err_obj + list_reply" where
  "complaintService_getComplaints r = unwrap (only_message ''Failed to fetch complaints'') r"

definition complaintService_getComplaintById :: "complaint http \<Rightarrow> err_obj + complaint" where
  "complaintService_getComplaintById r = unwrap (only_message ''Failed to fetch complaint details'') r"

definition complaintService_submitComplaint :: "complaint http \<Rightarrow> err_obj + complaint" where
  "complaintService_submitComplaint r = unwrap (only_message ''Failed to submit complaint'') r"

definition complaintService_updateComplaint :: "complaint http \<Rightarrow> err_obj + complaint" where
  "complaintService_updateComplaint r = unwrap (only_message ''Failed to update complaint'') r"

definition complaintService_getComplaintStats :: "jsnum obj http \<Rightarrow> err_obj + jsnum obj" where
  "complaintService_getComplaintStats r =
     unwrap (only_message ''Failed to fetch complaint statistics'') r"

definition complaintService_deleteComplaint :: "unit http \<Rightarrow> err_obj + unit" where
  "complaintService_deleteComplaint r = unwrap (only_message ''Failed to delete complaint'') r"

subsection \<open>Store operations\<close>

text \<open>
  Each operation takes the outcome of its HTTP request and the store's state, and returns
  what the promise settles to (\<open>Inl\<close>: rejected with that error) with the state after all
  of its dispatches. The identifier of a request only selects the URL, and the draft and the
  patch only travel in the request body, as the filters do in the query, so these three are
  not arguments of the model; a successful body is an object of the expected kind.
\<close>

definition fetchComplaints ::
  "list_reply http \<Rightarrow> complaint_state \<Rightarrow> (err_obj + list_reply) \<times> complaint_state" where
  "fetchComplaints r state =
     (let s1 = dispatch_all state [SET_LOADING True, CLEAR_ERROR]
      in case complaintService_getComplaints r of
           Inr response \<Rightarrow>
             (Inr response,
              dispatch_all s1
                ([SET_COMPLAINTS (case l_complaints response of Some cs \<Rightarrow> cs | None \<Rightarrow> [])]
                 @ (case l_pagination response of Some p \<Rightarrow> [SET_PAGINATION p] | None \<Rightarrow> [])))
         | Inl e \<Rightarrow>
             (Inl e, complaintReducer s1
                       (SET_ERROR (Some (or_else (e_message e) ''Failed to fetch complaints'')))))"

definition fetchComplaintById ::
  "ident \<Rightarrow> complaint http \<Rightarrow> complaint_state \<Rightarrow> (err_obj + complaint) \<times> complaint_state" where
  "fetchComplaintById complaintId r state =
     (let s1 = dispatch_all state [SET_LOADING True, CLEAR_ERROR]
      in case complaintService_getComplaintById r of
           Inr complaint \<Rightarrow> (Inr complaint, complaintReducer s1 (SET_CURRENT_COMPLAINT (Some complaint)))
         | Inl e \<Rightarrow>
             (Inl e, complaintReducer s1
                       (SET_ERROR (Some (or_else (e_message e) ''Failed to fetch complaint'')))))"

definition submitComplaint ::
  "complaint http \<Rightarrow> complaint_state \<Rightarrow> (err_obj + complaint) \<times> complaint_state" where
  "submitComplaint r state =
     (let s1 = dispatch_all state [SET_LOADING True, CLEAR_ERROR]
      in case complaintService_submitComplaint r of
           Inr newComplaint \<Rightarrow>
             (Inr newComplaint, dispatch_all s1 [ADD_COMPLAINT newComplaint, SET_LOADING False])
         | Inl e \<Rightarrow>
             (Inl e, complaintReducer s1
                       (SET_ERROR (Some (or_else (e_message e) ''Failed to submit complaint'')))))"

definition updateComplaint ::
  "ident \<Rightarrow> complaint http \<Rightarrow> complaint_state \<Rightarrow> (err_obj + complaint) \<times> complaint_state" where
  "updateComplaint complaintId r state =
     (let s1 = dispatch_all state [SET_LOADING True, CLEAR_ERROR]
      in case complaintService_updateComplaint r of
           Inr updatedComplaint \<Rightarrow>
             (Inr updatedComplaint,
              dispatch_all s1 [UPDATE_COMPLAINT updatedComplaint, SET_LOADING False])
         | Inl e \<Rightarrow>
             (Inl e, complaintReducer s1
                       (SET_ERROR (Some (or_else (e_message e) ''Failed to update complaint'')))))"

definition deleteComplaint ::
  "ident \<Rightarrow> unit http \<Rightarrow> complaint_state \<Rightarrow> (err_obj + unit) \<times> complaint_state" where
  "deleteComplaint complaintId r state =
     (let s1 = dispatch_all state [SET_LOADING True, CLEAR_ERROR]
      in case complaintService_deleteComplaint r of
           Inr u \<Rightarrow> (Inr (), dispatch_all s1 [DELETE_COMPLAINT complaintId, SET_LOADING False])
         | Inl e \<Rightarrow>
             (Inl e, complaintReducer s1
                       (SET_ERROR (Some (or_else (e_message e) ''Failed to delete complaint'')))))"

text \<open>\<open>fetchStats\<close> only logs a failure: it then resolves with \<open>undefined\<close> and dispatches nothing.\<close>

definition fetchStats ::
  "jsnum obj http \<Rightarrow> complaint_state \<Rightarrow> jsnum obj option \<times> complaint_state" where
  "fetchStats r state =
     (case complaintService_getComplaintStats r of
        Inr st \<Rightarrow> (Some st, complaintReducer state (SET_STATS st))
      | Inl e \<Rightarrow> (None, state))"

text \<open>A run of successful submits, one returned complaint after the other.\<close>

fun submit_all :: "complaint list \<Rightarrow> complaint_state \<Rightarrow> complaint_state" where
  "submit_all [] state = state"
| "submit_all (c # cs) state = submit_all cs (snd (submitComplaint (Ok200 c) state))"

section \<open>Conversation store (ChatbotContext)\<close>

datatype sender = User | Bot

text \<open>
  \<open>Date.now()\<close> and \<open>new Date()\<close> inside one object literal are one reading of the clock.
  The text of a bot message is \<open>undefined\<close> (\<open>None\<close>) when the reply has neither field.
\<close>

record message =
  m_id :: nat
  m_text :: "string option"
  m_sender :: sender
  m_timestamp :: nat
  m_intent :: "string option"
  m_sentiment :: "string option"
  m_entities :: "string option"
  m_isError :: bool

record chatbot_state =
  messages :: "message list"
  currentConversationId :: "string option"
  isTyping :: bool
  isConnected :: bool
  chat_error :: "string option"
  suggestions :: "string list"
  conversationHistory :: "string list"
  capabilities :: "bool obj"

definition default_features :: "bool obj" where
  "default_features =
     [(''intentClassification'', False), (''sentimentAnalysis'', False),
      (''entityExtraction'', False), (''multilingual'', False)]"

definition chat_initialState :: chatbot_state where
  "chat_initialState =
     \<lparr>messages = [],
      currentConversationId = None,
      isTyping = False,
      isConnected = True,
      chat_error = None,
      suggestions = [],
      conversationHistory = [],
      capabilities = default_features\<rparr>"

datatype chatbot_action =
    CHAT_SET_MESSAGES "message list"
  | CHAT_ADD_MESSAGE message
  | CHAT_SET_TYPING bool
  | CHAT_SET_CONNECTED bool
  | CHAT_SET_ERROR "string option"
  | CHAT_CLEAR_ERROR
  | CHAT_SET_CONVERSATION_ID "string option"
  | CHAT_SET_SUGGESTIONS "string list"
  | CHAT_SET_CONVERSATION_HISTORY "string list"
  | CHAT_SET_CAPABILITIES "bool obj"
  | CHAT_RESET_CONVERSATION
  | CHAT_OTHER_ACTION string

fun chatbotReducer :: "chatbot_state \<Rightarrow> chatbot_action \<Rightarrow> chatbot_state" where
  "chatbotReducer state (CHAT_SET_MESSAGES ms) = state\<lparr>messages := ms\<rparr>"
| "chatbotReducer state (CHAT_ADD_MESSAGE m) = state\<lparr>messages := messages state @ [m]\<rparr>"
| "chatbotReducer state (CHAT_SET_TYPING b) = state\<lparr>isTyping := b\<rparr>"
| "chatbotReducer state (CHAT_SET_CONNECTED b) = state\<lparr>isConnected := b\<rparr>"
| "chatbotReducer state (CHAT_SET_ERROR e) = state\<lparr>chat_error := e, isTyping := False\<rparr>"
| "chatbotReducer state CHAT_CLEAR_ERROR = state\<lparr>chat_error := None\<rparr>"
| "chatbotReducer state (CHAT_SET_CONVERSATION_ID i) = state\<lparr>currentConversationId := i\<rparr>"
| "chatbotReducer state (CHAT_SET_SUGGESTIONS ss) = state\<lparr>suggestions := ss\<rparr>"
| "chatbotReducer state (CHAT_SET_CONVERSATION_HISTORY h) = state\<lparr>conversationHistory := h\<rparr>"
| "chatbotReducer state (CHAT_SET_CAPABILITIES c) = state\<lparr>capabilities := c\<rparr>"
| "chatbotReducer state CHAT_RESET_CONVERSATION =
     chat_initialState\<lparr>capabilities := capabilities state\<rparr>"
| "chatbotReducer state (CHAT_OTHER_ACTION t) = state"

subsection \<open>chatbotService\<close>

text \<open>
  The fields the store reads from the body of a reply. A body that is \<open>null\<close> or
  \<open>undefined\<close> is \<open>None\<close>: reading a field of it raises a TypeError.
\<close>

record chat_reply =
  r_message :: "string option"
  r_response :: "string option"
  r_conversationId :: "string option"
  r_suggestions :: "string list option"
  r_intent :: "string option"
  r_sentiment :: "string option"
  r_entities :: "string option"

record start_reply =
  s_conversationId :: "string option"

record capabilities_reply =
  cap_capabilities :: "string list option"
  cap_features :: "bool obj option"

definition service_apology_text :: string where
  "service_apology_text = ''I apologize, but I'm having trouble processing your request right now. Please try again later or contact support.''"

definition chatbotService_sendMessage :: "chat_reply option http \<Rightarrow> err_obj + chat_reply option" where
  "chatbotService_sendMessage r =
     unwrap \<lparr>e_message = Some ''Failed to send message to chatbot'',
             e_response = Some service_apology_text\<rparr> r"

definition chatbotService_startConversation ::
  "start_reply option http \<Rightarrow> err_obj + start_reply option" where
  "chatbotService_startConversation r = unwrap (only_message ''Failed to start conversation'') r"

definition chatbotService_endConversation :: "unit http \<Rightarrow> err_obj + unit" where
  "chatbotService_endConversation r = unwrap (only_message ''Failed to end conversation'') r"

text \<open>\<open>getCapabilities\<close> never rejects: a failed request yields the default record.\<close>

fun chatbotService_getCapabilities :: "capabilities_reply option http \<Rightarrow> capabilities_reply option" where
  "chatbotService_getCapabilities (Ok200 d) = d"
| "chatbotService_getCapabilities (Failed e) =
     Some \<lparr>cap_capabilities = Some [''Basic Q&A'', ''Complaint Guidance'', ''Status Inquiries'',
                                     ''General Information''],
           cap_features = Some default_features\<rparr>"

subsection \<open>Store operations\<close>

text \<open>
  What an operation's \<open>catch\<close> receives: the object a service rejected with, or the
  TypeError raised by reading a field of a \<open>null\<close> body, with the engine's message.
\<close>

datatype thrown = Rejected err_obj | TypeError string

fun thrown_message :: "thrown \<Rightarrow> string option" where
  "thrown_message (Rejected e) = e_message e"
| "thrown_message (TypeError m) = Some m"

fun thrown_response :: "thrown \<Rightarrow> string option" where
  "thrown_response (Rejected e) = e_response e"
| "thrown_response (TypeError m) = None"

text \<open>
  The message of that TypeError names the field that was read. The wording is the engine's
  own; it is V8's here, for a \<open>null\<close> body, and nothing stated below depends on it.
\<close>

definition null_read_message :: "string \<Rightarrow> string" where
  "null_read_message field =
     ''Cannot read properties of null (reading '' @ [CHR 0x27] @ field @ [CHR 0x27] @ '')''"

text \<open>The requests that leave the store, in the order they are sent.\<close>

datatype request =
    GetCapabilitiesReq
  | SendMessageReq string "string option"
  | StartConversationReq "string option"
  | EndConversationReq string

record world =
  store :: chatbot_state
  sent :: "request list"

definition dispatch :: "chatbot_action \<Rightarrow> world \<Rightarrow> world" where
  "dispatch a w = w\<lparr>store := chatbotReducer (store w) a\<rparr>"

fun dispatches :: "chatbot_action list \<Rightarrow> world \<Rightarrow> world" where
  "dispatches [] w = w"
| "dispatches (a # as) w = dispatches as (dispatch a w)"

definition send :: "request \<Rightarrow> world \<Rightarrow> world" where
  "send q w = w\<lparr>sent := sent w @ [q]\<rparr>"

definition greeting_text :: string where
  "greeting_text = ''Hello! I'm your ComplEase assistant. I'm here to help you with your complaints and answer any questions you might have. How can I assist you today?''"

definition apology_text :: string where
  "apology_text = ''I'm sorry, I'm having trouble processing your request right now. Please try again later or contact support if the issue persists.''"

definition greetingMessage :: "nat \<Rightarrow> message" where
  "greetingMessage now =
     \<lparr>m_id = now, m_text = Some greeting_text, m_sender = Bot, m_timestamp = now,
      m_intent = None, m_sentiment = None, m_entities = None, m_isError = False\<rparr>"

definition userMessage :: "nat \<Rightarrow> string \<Rightarrow> message" where
  "userMessage now messageText =
     \<lparr>m_id = now, m_text = Some messageText, m_sender = User, m_timestamp = now,
      m_intent = None, m_sentiment = None, m_entities = None, m_isError = False\<rparr>"

text \<open>\<open>response.message || response.response\<close>\<close>

fun reply_text :: "chat_reply \<Rightarrow> string option" where
  "reply_text r = (if truthy (r_message r) then r_message r else r_response r)"

definition botMessage :: "nat \<Rightarrow> chat_reply \<Rightarrow> message" where
  "botMessage now r =
     \<lparr>m_id = now + 1, m_text = reply_text r, m_sender = Bot, m_timestamp = now,
      m_intent = r_intent r, m_sentiment = r_sentiment r, m_entities = r_entities r,
      m_isError = False\<rparr>"

definition errorMessage :: "nat \<Rightarrow> thrown \<Rightarrow> message" where
  "errorMessage now e =
     \<lparr>m_id = now + 1, m_text = Some (or_else (thrown_response e) apology_text), m_sender = Bot,
      m_timestamp = now, m_intent = None, m_sentiment = None, m_entities = None,
      m_isError = True\<rparr>"

text \<open>
  \<open>initializeChatbot\<close>. The \<open>catch\<close> is reached only by the TypeError of
  \<open>capabilities.features\<close> on a \<open>null\<close> body, since \<open>getCapabilities\<close> never rejects.
\<close>

definition initializeChatbot :: "nat \<Rightarrow> capabilities_reply option http \<Rightarrow> world \<Rightarrow> world" where
  "initializeChatbot now r w =
     (let w1 = send GetCapabilitiesReq w
      in case chatbotService_getCapabilities r of
           Some caps \<Rightarrow>
             dispatches
               [CHAT_SET_CAPABILITIES (case cap_features caps of Some f \<Rightarrow> f | None \<Rightarrow> []),
                CHAT_ADD_MESSAGE (greetingMessage now),
                CHAT_SET_CONNECTED True] w1
         | None \<Rightarrow> dispatch (CHAT_SET_CONNECTED False) w1)"

text \<open>The \<open>catch\<close> branch of \<open>sendMessage\<close>.\<close>

definition sendMessage_catch :: "nat \<Rightarrow> thrown \<Rightarrow> world \<Rightarrow> (thrown + chat_reply) \<times> world" where
  "sendMessage_catch now e w =
     (Inl e,
      dispatches
        [CHAT_ADD_MESSAGE (errorMessage now e),
         CHAT_SET_ERROR (Some (or_else (thrown_message e) ''Failed to send message''))] w)"

text \<open>
  \<open>sendMessage\<close> is a callback memoised on \<open>state.currentConversationId\<close>: the conversation
  id it forwards is the one of the render that created the callback, which is its first
  argument here. Its dispatches act on the store as it is when they run. \<open>t1\<close> and \<open>t2\<close>
  are the clock readings before and after the request.
\<close>

definition sendMessage ::
  "string option \<Rightarrow> string \<Rightarrow> nat \<Rightarrow> nat \<Rightarrow> chat_reply option http \<Rightarrow> world
     \<Rightarrow> (thrown + chat_reply) \<times> world" where
  "sendMessage captured_currentConversationId messageText t1 t2 r w =
     (let w1 = dispatches
                 [CHAT_ADD_MESSAGE (userMessage t1 messageText), CHAT_SET_TYPING True,
                  CHAT_CLEAR_ERROR] w;
          w2 = send (SendMessageReq messageText captured_currentConversationId) w1
      in case chatbotService_sendMessage r of
           Inl e \<Rightarrow> sendMessage_catch t2 (Rejected e) w2
         | Inr None \<Rightarrow> sendMessage_catch t2 (TypeError (null_read_message ''message'')) w2
         | Inr (Some response) \<Rightarrow>
             (Inr response,
              dispatches
                ([CHAT_ADD_MESSAGE (botMessage t2 response)]
                 @ (if truthy (r_conversationId response)
                    then [CHAT_SET_CONVERSATION_ID (r_conversationId response)] else [])
                 @ (case r_suggestions response of
                      Some ss \<Rightarrow> [CHAT_SET_SUGGESTIONS ss] | None \<Rightarrow> [])
                 @ [CHAT_SET_TYPING False]) w2))"

text \<open>
  \<open>startNewConversation\<close> is memoised on \<open>sendMessage\<close>, so the \<open>sendMessage\<close> it calls is the
  callback of the same render: both see the conversation id of that render.
  \<open>if (initialMessage)\<close> is false for \<open>null\<close> and for the empty string.
\<close>

definition startNewConversation ::
  "string option \<Rightarrow> string option \<Rightarrow> nat \<Rightarrow> nat \<Rightarrow> start_reply option http
     \<Rightarrow> chat_reply option http \<Rightarrow> world \<Rightarrow> (thrown + start_reply) \<times> world" where
  "startNewConversation captured_currentConversationId initialMessage t1 t2 r_start r_send w =
     (let w1 = send (StartConversationReq initialMessage) w
      in case chatbotService_startConversation r_start of
           Inl e \<Rightarrow> (Inl (Rejected e), w1)
         | Inr None \<Rightarrow> (Inl (TypeError (null_read_message ''conversationId'')), w1)
         | Inr (Some response) \<Rightarrow>
             (let w2 = dispatch (CHAT_SET_CONVERSATION_ID (s_conversationId response)) w1
              in case initialMessage of
                   None \<Rightarrow> (Inr response, w2)
                 | Some m \<Rightarrow>
                     if m = [] then (Inr response, w2)
                     else (case sendMessage captured_currentConversationId m t1 t2 r_send w2 of
                             (Inl e, w3) \<Rightarrow> (Inl e, w3)
                           | (Inr x, w3) \<Rightarrow> (Inr response, w3))))"

text \<open>
  \<open>endConversation\<close> is memoised on \<open>state.currentConversationId\<close> as well; it resolves in
  every case.
\<close>

definition endConversation :: "string option \<Rightarrow> unit http \<Rightarrow> world \<Rightarrow> world" where
  "endConversation captured_currentConversationId r w =
     (case captured_currentConversationId of
        None \<Rightarrow> dispatch CHAT_RESET_CONVERSATION w
      | Some i \<Rightarrow>
          if i = [] then dispatch CHAT_RESET_CONVERSATION w
          else (let w1 = send (EndConversationReq i) w
                in case chatbotService_endConversation r of
                     Inr u \<Rightarrow> dispatch CHAT_RESET_CONVERSATION w1
                   | Inl e \<Rightarrow> dispatch CHAT_RESET_CONVERSATION w1))"

text \<open>
  A call made from the interface uses the callbacks of the latest render, whose state is
  the store's current one.
\<close>

definition ui_sendMessage ::
  "string \<Rightarrow> nat \<Rightarrow> nat \<Rightarrow> chat_reply option http \<Rightarrow> world \<Rightarrow> (thrown + chat_reply) \<times> world" where
  "ui_sendMessage messageText t1 t2 r w =
     sendMessage (currentConversationId (store w)) messageText t1 t2 r w"

definition ui_startNewConversation ::
  "string option \<Rightarrow> nat \<Rightarrow> nat \<Rightarrow> start_reply option http \<Rightarrow> chat_reply option http \<Rightarrow> world
     \<Rightarrow> (thrown + start_reply) \<times> world" where
  "ui_startNewConversation initialMessage t1 t2 r_start r_send w =
     startNewConversation (currentConversationId (store w)) initialMessage t1 t2 r_start r_send w"

definition ui_endConversation :: "unit http \<Rightarrow> world \<Rightarrow> world" where
  "ui_endConversation r w = endConversation (currentConversationId (store w)) r w"

subsection \<open>Sample data\<close>

definition sample_complaint :: "ident \<Rightarrow> string \<Rightarrow> string \<Rightarrow> complaint" where
  "sample_complaint i title status =
     \<lparr>c_id = i, c_title = title, c_category = ''Infrastructure'', c_priority = ''high'',
      c_status = status, c_description = ''Severe water leakage causing damage to property'',
      c_location = ''Building A, Floor 3'', c_submittedAt = ''2025-08-20T10:30:00Z'',
      c_updatedAt = ''2025-08-20T10:30:00Z''\<rparr>"

definition one_pending_loaded :: complaint_state where
  "one_pending_loaded =
     snd (fetchComplaints
            (Ok200 \<lparr>l_complaints =
                       Some [sample_complaint (NumId 1) ''Water leakage in building A'' ''pending''],
                     l_pagination = None\<rparr>)
            initialState)"

text \<open>
  A populated store: two complaints loaded, the stats fetched, and then either complaint 7
  (which is not in the list) or complaint 2 (which is) opened as the current complaint.
\<close>

definition two_loaded :: complaint_state where
  "two_loaded =
     snd (fetchStats
            (Ok200 [(''total'', Num 2), (''pending'', Num 1), (''resolved'', Num 1),
                    (''rejected'', Num 0)])
            (snd (fetchComplaints
                    (Ok200 \<lparr>l_complaints =
                               Some [sample_complaint (NumId 1) ''Water leakage in building A'' ''pending'',
                                     sample_complaint (NumId 2) ''Noise at night'' ''resolved''],
                             l_pagination = None\<rparr>)
                    initialState)))"



definition sample_reply :: chat_reply where
  "sample_reply =
     \<lparr>r_message = Some ''Sure, what is the issue?'', r_response = None, r_conversationId = None,
      r_suggestions = None, r_intent = None, r_sentiment = None, r_entities = None\<rparr>"

definition fresh_world :: world where
  "fresh_world = \<lparr>store = chat_initialState, sent = []\<rparr>"

section \<open>Properties of the domain store\<close>

subsection \<open>Objects\<close>

lemma obj_get_set: "obj_get (obj_set k v ps) k' = (if k = k' then Some v else obj_get ps k')"
  by (induction ps) auto


lemma find_absent: "i \<notin> c_id ` set cs \<Longrightarrow> find (\<lambda>c. c_id c = i) cs = None"
  by (induction cs) auto

subsection \<open>remove\<close>

text \<open>The state after a successful \<open>deleteComplaint\<close>, written out.\<close>

lemma delete_success_state:
  "deleteComplaint i (Ok200 ()) s =
     (Inr (),
      s\<lparr>complaints := filter (\<lambda>c. c_id c \<noteq> i) (complaints s),
        currentComplaint :=
          (if current_has_id (currentComplaint s) i then None else currentComplaint s),
        stats := obj_set (status_key (find (\<lambda>c. c_id c = i) (complaints s)))
                   (math_max0 (js_minus (obj_get (stats s)
                      (status_key (find (\<lambda>c. c_id c = i) (complaints s)))) 1))
                   (obj_set ''total'' (js_minus (obj_get (stats s) ''total'') 1) (stats s)),
        isLoading := False, error := None\<rparr>)"
  by (simp add: deleteComplaint_def complaintService_deleteComplaint_def Let_def)

text \<open>Every entry with the identifier is gone from the list afterwards.\<close>

lemma delete_removes_every_entry:
  "i \<notin> c_id ` set (complaints (snd (deleteComplaint i (Ok200 ()) s)))"
  by (auto simp: delete_success_state)

text \<open>The bucket named by the removed entry's status is clamped: if it is a number, it is not negative.\<close>

lemma delete_bucket_not_negative:
  assumes "find (\<lambda>c. c_id c = i) (complaints s) = Some d"
    and "obj_get (stats (snd (deleteComplaint i (Ok200 ()) s))) (c_status d) = Some (Num n)"
  shows "0 \<le> n"
proof (cases "js_minus (obj_get (stats s) (c_status d)) 1")
  case (Num a)
  with assms show ?thesis by (simp add: delete_success_state obj_get_set)
next
  case NaN
  with assms show ?thesis by (simp add: delete_success_state obj_get_set)
qed

text \<open>
  When no entry has the identifier, every key other than \<open>total\<close> and \<open>undefined\<close> keeps its
  value.
\<close>

lemma delete_absent_keeps_buckets:
  assumes "i \<notin> c_id ` set (complaints s)" and "k \<noteq> ''total''" and "k \<noteq> ''undefined''"
  shows "obj_get (stats (snd (deleteComplaint i (Ok200 ()) s))) k = obj_get (stats s) k"
  using assms by (simp add: delete_success_state find_absent obj_get_set)

text \<open>
  C1. A successful remove of an identifier that is in the list should decrement
  \<open>Stats.total\<close> and the bucket of the removed entry's status, each clamped at zero, so that
  no field of the stats becomes negative. In the state reached from the initial one once
  \<open>fetchComplaints\<close> has loaded a single pending complaint, the stats not having been fetched,
  the removal of that complaint empties the list and leaves the \<open>pending\<close> bucket at zero,
  but \<open>total\<close> becomes \<open>-1\<close>: the reducer clamps the bucket with \<open>Math.max(0, ...)\<close> and
  subtracts from the total without a clamp.
\<close>

theorem delete_total_below_zero:
  "complaints one_pending_loaded
     = [sample_complaint (NumId 1) ''Water leakage in building A'' ''pending''] \<and>
   stats one_pending_loaded = stats initialState \<and>
   NumId 1 \<in> c_id ` set (complaints one_pending_loaded) \<and>
   deleteComplaint (NumId 1) (Ok200 ()) one_pending_loaded
   = (Inr (),
      initialState\<lparr>stats := [(''total'', Num (- 1)), (''pending'', Num 0), (''resolved'', Num 0),
                              (''rejected'', Num 0)]\<rparr>)"
  by (simp add: deleteComplaint_def complaintService_deleteComplaint_def initialState_def
        sample_complaint_def one_pending_loaded_def fetchComplaints_def
        complaintService_getComplaints_def)

text \<open>
  C2. A successful remove of an identifier that is not in the list should change no status
  bucket and add no key to the stats. From the initial state, whose list is empty, the
  removal of identifier 5 leaves \<open>pending\<close>, \<open>resolved\<close> and \<open>rejected\<close> as they were, but
  the stats gain a fifth key, \<open>undefined\<close>, holding \<open>NaN\<close>: the computed key
  \<open>[deletedComplaint?.status]\<close> of an absent record is the string \<open>undefined\<close>, and
  \<open>Math.max(0, undefined - 1)\<close> is \<open>NaN\<close>. The total becomes \<open>-1\<close> as well.
\<close>

theorem delete_absent_adds_key:
  "NumId 5 \<notin> c_id ` set (complaints initialState) \<and>
   obj_keys (stats initialState) = [''total'', ''pending'', ''resolved'', ''rejected''] \<and>
   stats (snd (deleteComplaint (NumId 5) (Ok200 ()) initialState))
     = [(''total'', Num (- 1)), (''pending'', Num 0), (''resolved'', Num 0),
        (''rejected'', Num 0), (''undefined'', NaN)]"
  by (simp add: deleteComplaint_def complaintService_deleteComplaint_def initialState_def)

subsection \<open>submit\<close>

lemma submit_success_state:
  "snd (submitComplaint (Ok200 c) s) =
     s\<lparr>complaints := c # complaints s,
       stats := obj_set ''pending'' (js_plus (obj_get (stats s) ''pending'') 1)
                  (obj_set ''total'' (js_plus (obj_get (stats s) ''total'') 1) (stats s)),
       isLoading := False, error := None\<rparr>"
  by (simp add: submitComplaint_def complaintService_submitComplaint_def)

lemma submit_all_counts:
  "obj_get (stats s) ''total'' = Some (Num t) \<Longrightarrow> obj_get (stats s) ''pending'' = Some (Num p) \<Longrightarrow>
   complaints (submit_all cs s) = rev cs @ complaints s \<and>
   obj_get (stats (submit_all cs s)) ''total'' = Some (Num (t + int (length cs))) \<and>
   obj_get (stats (submit_all cs s)) ''pending'' = Some (Num (p + int (length cs)))"
proof (induction cs arbitrary: s t p)
  case Nil
  then show ?case by simp
next
  case (Cons c cs)
  let ?s1 = "snd (submitComplaint (Ok200 c) s)"
  have t1: "obj_get (stats ?s1) ''total'' = Some (Num (t + 1))"
    using Cons.prems by (simp add: submit_success_state obj_get_set)
  have p1: "obj_get (stats ?s1) ''pending'' = Some (Num (p + 1))"
    using Cons.prems by (simp add: submit_success_state obj_get_set)
  have c1: "complaints ?s1 = c # complaints s"
    by (simp add: submit_success_state)
  from Cons.IH [OF t1 p1] c1 show ?case by simp
qed

text \<open>
  C7. In every state whose stats hold numbers under \<open>total\<close> and \<open>pending\<close>, within the
  range where adding one is exact, a successful submit resolves with the returned
  complaint, puts it at the front of the list and raises \<open>total\<close> and \<open>pending\<close> by exactly
  one each; after any run of \<open>N\<close> successful submits with nothing in between, the list holds
  the returned complaints (latest first) before the old entries, and \<open>total\<close> and \<open>pending\<close>
  have each grown by \<open>N\<close>.
\<close>

theorem submit_increments:
  assumes "obj_get (stats s) ''total'' = Some (Num t)"
    and "obj_get (stats s) ''pending'' = Some (Num p)"
    and "- (2 ^ 53) \<le> t" and "t + int (length cs) < 2 ^ 53"
    and "- (2 ^ 53) \<le> p" and "p + int (length cs) < 2 ^ 53"
  shows "fst (submitComplaint (Ok200 c) s) = Inr c \<and>
         complaints (snd (submitComplaint (Ok200 c) s)) = c # complaints s \<and>
         obj_get (stats (snd (submitComplaint (Ok200 c) s))) ''total'' = Some (Num (t + 1)) \<and>
         obj_get (stats (snd (submitComplaint (Ok200 c) s))) ''pending'' = Some (Num (p + 1)) \<and>
         complaints (submit_all cs s) = rev cs @ complaints s \<and>
         obj_get (stats (submit_all cs s)) ''total'' = Some (Num (t + int (length cs))) \<and>
         obj_get (stats (submit_all cs s)) ''pending'' = Some (Num (p + int (length cs)))"
proof -
  have "fst (submitComplaint (Ok200 c) s) = Inr c"
    by (simp add: submitComplaint_def complaintService_submitComplaint_def)
  moreover have "complaints (snd (submitComplaint (Ok200 c) s)) = c # complaints s"
    by (simp add: submit_success_state)
  moreover have "obj_get (stats (snd (submitComplaint (Ok200 c) s))) ''total'' = Some (Num (t + 1))"
    using assms(1) by (simp add: submit_success_state obj_get_set)
  moreover have "obj_get (stats (snd (submitComplaint (Ok200 c) s))) ''pending'' = Some (Num (p + 1))"
    using assms(2) by (simp add: submit_success_state obj_get_set)
  ultimately show ?thesis
    using submit_all_counts [OF assms(1) assms(2), of cs] by simp
qed

theorem submit_increments_witness:
  "obj_get (stats two_loaded) ''total'' = Some (Num 2) \<and>
   obj_get (stats two_loaded) ''pending'' = Some (Num 1) \<and>
   - (2 ^ 53) \<le> (2 :: int) \<and>
   (2 :: int) + int (length [sample_complaint (NumId 3) ''Pothole'' ''pending'',
                             sample_complaint (NumId 4) ''Fallen tree'' ''pending'']) < 2 ^ 53 \<and>
   - (2 ^ 53) \<le> (1 :: int) \<and>
   (1 :: int) + int (length [sample_complaint (NumId 3) ''Pothole'' ''pending'',
                             sample_complaint (NumId 4) ''Fallen tree'' ''pending'']) < 2 ^ 53 \<and>
   complaints (snd (submitComplaint (Ok200 (sample_complaint (NumId 3) ''Pothole'' ''pending''))
                      two_loaded))
     = [sample_complaint (NumId 3) ''Pothole'' ''pending'',
        sample_complaint (NumId 1) ''Water leakage in building A'' ''pending'',
        sample_complaint (NumId 2) ''Noise at night'' ''resolved''] \<and>
   obj_get (stats (snd (submitComplaint (Ok200 (sample_complaint (NumId 3) ''Pothole'' ''pending''))
                          two_loaded))) ''total'' = Some (Num 3) \<and>
   obj_get (stats (snd (submitComplaint (Ok200 (sample_complaint (NumId 3) ''Pothole'' ''pending''))
                          two_loaded))) ''pending'' = Some (Num 2) \<and>
   complaints (submit_all [sample_complaint (NumId 3) ''Pothole'' ''pending'',
                           sample_complaint (NumId 4) ''Fallen tree'' ''pending''] two_loaded)
     = [sample_complaint (NumId 4) ''Fallen tree'' ''pending'',
        sample_complaint (NumId 3) ''Pothole'' ''pending'',
        sample_complaint (NumId 1) ''Water leakage in building A'' ''pending'',
        sample_complaint (NumId 2) ''Noise at night'' ''resolved''] \<and>
   obj_get (stats (submit_all [sample_complaint (NumId 3) ''Pothole'' ''pending'',
                               sample_complaint (NumId 4) ''Fallen tree'' ''pending''] two_loaded))
      ''total'' = Some (Num 4) \<and>
   obj_get (stats (submit_all [sample_complaint (NumId 3) ''Pothole'' ''pending'',
                               sample_complaint (NumId 4) ''Fallen tree'' ''pending''] two_loaded))
      ''pending'' = Some (Num 3)"
proof -
  have t: "obj_get (stats two_loaded) ''total'' = Some (Num 2)"
    and p: "obj_get (stats two_loaded) ''pending'' = Some (Num 1)"
    and cs: "complaints two_loaded
               = [sample_complaint (NumId 1) ''Water leakage in building A'' ''pending'',
                  sample_complaint (NumId 2) ''Noise at night'' ''resolved'']"
    by (simp_all add: two_loaded_def fetchStats_def complaintService_getComplaintStats_def
          fetchComplaints_def complaintService_getComplaints_def)
  show ?thesis
    using t p cs
      submit_increments
        [where s = two_loaded and t = 2 and p = 1
           and c = "sample_complaint (NumId 3) ''Pothole'' ''pending''"
           and cs = "[sample_complaint (NumId 3) ''Pothole'' ''pending'',
                      sample_complaint (NumId 4) ''Fallen tree'' ''pending'']"]
    by simp
qed

subsection \<open>update\<close>




subsection \<open>Error and Loading\<close>

text \<open>
  C8. The action that sets the Error field sets Loading to false in the same transition,
  and it is the only one that can leave a new non-null error behind: whenever a transition
  of the reducer ends with a non-null error different from the one before it, Loading is
  false afterwards.
\<close>

theorem error_transition_clears_loading:
  "\<not> isLoading (complaintReducer s (SET_ERROR e)) \<and>
   error (complaintReducer s (SET_ERROR e)) = e \<and>
   (error (complaintReducer s a) \<noteq> None \<and> error (complaintReducer s a) \<noteq> error s
      \<longrightarrow> \<not> isLoading (complaintReducer s a))"
  by (cases a) (simp_all add: initialState_def Let_def)

theorem error_transition_clears_loading_witness:
  "error (complaintReducer (initialState\<lparr>isLoading := True\<rparr>)
            (SET_ERROR (Some ''Failed to fetch complaints''))) \<noteq> None \<and>
   error (complaintReducer (initialState\<lparr>isLoading := True\<rparr>)
            (SET_ERROR (Some ''Failed to fetch complaints'')))
     \<noteq> error (initialState\<lparr>isLoading := True\<rparr>) \<and>
   isLoading (initialState\<lparr>isLoading := True\<rparr>) \<and>
   \<not> isLoading (complaintReducer (initialState\<lparr>isLoading := True\<rparr>)
                  (SET_ERROR (Some ''Failed to fetch complaints'')))"
  using error_transition_clears_loading
          [of "initialState\<lparr>isLoading := True\<rparr>" "Some ''Failed to fetch complaints''"
              "SET_ERROR (Some ''Failed to fetch complaints'')"]
  by (simp add: initialState_def)

text \<open>
  The operations that surface a failure end in such a transition: a failed fetch, submit,
  update or delete leaves a non-null error and Loading false, and rejects.
\<close>

lemma failed_operations_clear_loading:
  "error (snd (fetchComplaints (Failed b) s)) \<noteq> None \<and>
   \<not> isLoading (snd (fetchComplaints (Failed b) s)) \<and>
   error (snd (fetchComplaintById i (Failed b) s)) \<noteq> None \<and>
   \<not> isLoading (snd (fetchComplaintById i (Failed b) s)) \<and>
   error (snd (submitComplaint (Failed b) s)) \<noteq> None \<and>
   \<not> isLoading (snd (submitComplaint (Failed b) s)) \<and>
   error (snd (updateComplaint i (Failed b) s)) \<noteq> None \<and>
   \<not> isLoading (snd (updateComplaint i (Failed b) s)) \<and>
   error (snd (deleteComplaint i (Failed b) s)) \<noteq> None \<and>
   \<not> isLoading (snd (deleteComplaint i (Failed b) s))"
  by (cases b)
     (simp_all add: fetchComplaints_def fetchComplaintById_def submitComplaint_def
        updateComplaint_def deleteComplaint_def complaintService_getComplaints_def
        complaintService_getComplaintById_def
        complaintService_submitComplaint_def complaintService_updateComplaint_def
        complaintService_deleteComplaint_def)

section \<open>Properties of the conversation store\<close>

subsection \<open>Dispatching and sending\<close>

lemma store_dispatch [simp]: "store (dispatch a w) = chatbotReducer (store w) a"
  and sent_dispatch [simp]: "sent (dispatch a w) = sent w"
  by (simp_all add: dispatch_def)

lemma store_send [simp]: "store (send q w) = store w"
  and sent_send [simp]: "sent (send q w) = sent w @ [q]"
  by (simp_all add: send_def)

lemma sent_dispatches [simp]: "sent (dispatches as w) = sent w"
  by (induction as arbitrary: w) simp_all

lemma dispatches_append: "dispatches (as @ bs) w = dispatches bs (dispatches as w)"
  by (induction as arbitrary: w) simp_all

subsection \<open>sendMessage\<close>

text \<open>The transcript after \<open>sendMessage\<close>, in each of its three outcomes.\<close>

lemma sendMessage_messages:
  "messages (store (snd (sendMessage cid txt t1 t2 r w))) =
     messages (store w) @
       [userMessage t1 txt,
        (case chatbotService_sendMessage r of
           Inl e \<Rightarrow> errorMessage t2 (Rejected e)
         | Inr None \<Rightarrow> errorMessage t2 (TypeError (null_read_message ''message''))
         | Inr (Some response) \<Rightarrow> botMessage t2 response)]"
  by (simp add: sendMessage_def sendMessage_catch_def dispatches_append
        split: sum.splits option.splits)

lemma second_message_is_bot:
  "m_sender (case x of
           Inl e \<Rightarrow> errorMessage t2 (Rejected e)
         | Inr None \<Rightarrow> errorMessage t2 (TypeError (null_read_message ''message''))
         | Inr (Some response) \<Rightarrow> botMessage t2 response) = Bot"
  by (simp add: errorMessage_def botMessage_def split: sum.splits option.splits)

text \<open>The request \<open>sendMessage\<close> makes carries the conversation id its closure captured.\<close>

lemma sendMessage_sent:
  "sent (snd (sendMessage cid m t1 t2 r w)) = sent w @ [SendMessageReq m cid]"
  by (simp add: sendMessage_def sendMessage_catch_def Let_def split: sum.splits option.splits)

text \<open>
  C3. Whatever the outcome of the remote call (a reply, a reply with a \<open>null\<close> body, or a
  failure), once \<open>sendMessage\<close> has settled the transcript is the one before the call,
  unchanged and in the same order, followed by exactly two messages: the user's message
  carrying the given text, then a message of the bot (the reply or the synthetic error
  message).
\<close>

theorem sendMessage_appends_two:
  "length (messages (store (snd (sendMessage cid txt t1 t2 r w)))) = length (messages (store w)) + 2 \<and>
   take (length (messages (store w))) (messages (store (snd (sendMessage cid txt t1 t2 r w))))
     = messages (store w) \<and>
   messages (store (snd (sendMessage cid txt t1 t2 r w))) ! length (messages (store w))
     = userMessage t1 txt \<and>
   m_sender (userMessage t1 txt) = User \<and> m_text (userMessage t1 txt) = Some txt \<and>
   m_sender (messages (store (snd (sendMessage cid txt t1 t2 r w))) ! (length (messages (store w)) + 1))
     = Bot"
  by (simp add: sendMessage_messages second_message_is_bot nth_append userMessage_def)


subsection \<open>initialize\<close>

text \<open>
  The claim C5 as written, that a failed capability fetch leaves Connected false and an
  empty transcript, fails from the initial state: the service answers a failed request
  with its default record, so the store appends the greeting and sets Connected to true.
\<close>

theorem initialize_failure_counterexample:
  "\<not> (isConnected (store (initializeChatbot 5 (Failed None) fresh_world)) = False \<and>
      length (messages (store (initializeChatbot 5 (Failed None) fresh_world))) = 0) \<and>
   isConnected (store (initializeChatbot 5 (Failed None) fresh_world)) \<and>
   messages (store (initializeChatbot 5 (Failed None) fresh_world)) = [greetingMessage 5]"
  by (simp add: initializeChatbot_def fresh_world_def chat_initialState_def)

text \<open>
  C5, amended. In every state, when the capability fetch fails the store takes the
  service's default capability set (every optional feature false), appends the fixed
  greeting to the transcript and sets Connected to true; when the fetch succeeds with a
  response object it takes that object's features (none if the object has no such field),
  appends the fixed greeting and sets Connected to true. Connected is set to false, with
  nothing appended, exactly when the fetch succeeds with a \<open>null\<close> body.
\<close>

theorem initialize_outcomes:
  "store (initializeChatbot now (Failed e) w) =
     (store w)\<lparr>capabilities := default_features,
               messages := messages (store w) @ [greetingMessage now],
               isConnected := True\<rparr> \<and>
   store (initializeChatbot now (Ok200 (Some d)) w) =
     (store w)\<lparr>capabilities := (case cap_features d of Some f \<Rightarrow> f | None \<Rightarrow> []),
               messages := messages (store w) @ [greetingMessage now],
               isConnected := True\<rparr> \<and>
   store (initializeChatbot now (Ok200 None) w) = (store w)\<lparr>isConnected := False\<rparr> \<and>
   m_text (greetingMessage now) = Some greeting_text \<and> m_sender (greetingMessage now) = Bot"
  by (simp add: initializeChatbot_def greetingMessage_def)

subsection \<open>startConversation\<close>

lemma snd_relabel:
  "snd (case p of (Inl e, w3) \<Rightarrow> (Inl e, w3) | (Inr x, w3) \<Rightarrow> (Inr r, w3)) = snd p"
  by (cases p) (simp split: sum.splits)

text \<open>
  With a non-empty initial message and a conversation started successfully, the message is
  forwarded under the conversation id of the render that created the callbacks, whatever
  id the remote collaborator has just returned.
\<close>

lemma start_forwards_captured_id:
  "m \<noteq> [] \<Longrightarrow>
   sent (snd (startNewConversation captured (Some m) t1 t2 (Ok200 (Some resp)) r_send w))
     = sent w @ [StartConversationReq (Some m), SendMessageReq m captured]"
  by (simp add: startNewConversation_def chatbotService_startConversation_def snd_relabel
        sendMessage_sent)

text \<open>
  C6. After the remote collaborator has returned a new conversation id, the initial message
  should be forwarded under that new id. Called from the interface in the initial state
  (no conversation yet) with the remote returning the id \<open>conv-1\<close>, the store does record
  \<open>conv-1\<close> as the current conversation, but the message request it sends carries the
  conversation id held before the call, here \<open>null\<close>.
\<close>

theorem start_forwards_stale_id:
  "currentConversationId (store fresh_world) = None \<and>
   sent (snd (ui_startNewConversation (Some ''I want to file a complaint'') 10 20
                (Ok200 (Some \<lparr>s_conversationId = Some ''conv-1''\<rparr>))
                (Ok200 (Some sample_reply)) fresh_world))
     = [StartConversationReq (Some ''I want to file a complaint''),
        SendMessageReq ''I want to file a complaint'' None] \<and>
   currentConversationId
     (store (snd (ui_startNewConversation (Some ''I want to file a complaint'') 10 20
                    (Ok200 (Some \<lparr>s_conversationId = Some ''conv-1''\<rparr>))
                    (Ok200 (Some sample_reply)) fresh_world)))
     = Some ''conv-1''"
  by (simp add: ui_startNewConversation_def startNewConversation_def
        chatbotService_startConversation_def sendMessage_def chatbotService_sendMessage_def
        fresh_world_def chat_initialState_def sample_reply_def)

subsection \<open>endConversation and reset\<close>

text \<open>
  C9. \<open>endConversation\<close> always leaves the store in the state the reset action produces from
  the state before it, whether or not a notification was sent and whether or not it failed;
  the reset action puts the transcript, the typing flag and the suggestions back to their
  initial values (empty, false, empty) and keeps the capabilities record as it was.
\<close>

theorem reset_preserves_capabilities:
  "store (endConversation cid r w) = chatbotReducer (store w) CHAT_RESET_CONVERSATION \<and>
   messages (chatbotReducer s CHAT_RESET_CONVERSATION) = [] \<and>
   messages chat_initialState = [] \<and>
   isTyping (chatbotReducer s CHAT_RESET_CONVERSATION) = False \<and>
   isTyping chat_initialState = False \<and>
   suggestions (chatbotReducer s CHAT_RESET_CONVERSATION) = [] \<and>
   suggestions chat_initialState = [] \<and>
   capabilities (chatbotReducer s CHAT_RESET_CONVERSATION) = capabilities s"
  by (simp add: endConversation_def chat_initialState_def chatbotService_endConversation_def
        split: option.splits sum.splits)

end
